theory Spec2Isabelle
  imports Main "HOL-Library.Char_ord" "HOL-Library.List_Lexorder" "HOL-Library.Multiset"
begin

section \<open>The data store of database.py\<close>

text \<open>
  The module keeps five tables in one SQLite file and every function opens a
  connection, runs its statements, commits and returns. The embedding follows that
  shape: a \<open>db\<close> value is the committed content of the file, every function of the
  module takes the database and returns either the engine's error (\<open>Inl\<close>) or its
  result (\<open>Inr\<close>): the new committed database for a writing function, the fetched
  rows for a reading one. When a call raises, nothing was committed and the file keeps
  its previous content (\<open>committed\<close> below).

  Values read from the clock (\<open>datetime.now()\<close>, the engine's \<open>CURRENT_TIMESTAMP\<close>)
  are arguments of the functions. Arguments have the types the schema gives their
  columns: a user id is an integer, a command or a query is a string. Integers are
  Python's and SQL's integers, modelled as \<open>int\<close> (the 64-bit range of the engine is
  not modelled); text columns are strings, a column that the code may bind to
  \<open>None\<close> is an option.
\<close>

subsection \<open>Errors raised by the driver\<close>

datatype sql_error = IntegrityError | ProgrammingError | OperationalError

subsection \<open>Rows and tables\<close>

record user_row =
  user_id :: int
  first_seen :: string
  last_seen :: string
  total_lookups :: int
  username :: "string option"
  first_name :: "string option"
  last_name :: "string option"

record admin_row =
  a_user_id :: int
  added_by :: int
  added_on :: string

record ban_row =
  b_user_id :: int
  reason :: string
  banned_by :: int
  banned_on :: string

record lookup_row =
  l_id :: int
  l_user_id :: int
  command :: string
  query :: string
  result :: string
  timestamp :: string

record daily_row =
  date :: string
  d_command :: string
  d_count :: int

text \<open>
  A table is the list of its rows in the order a full scan visits them. \<open>users\<close>,
  \<open>admins\<close> and \<open>banned\<close> have an \<open>INTEGER PRIMARY KEY\<close>, which is the
  row id, so a scan visits them by ascending \<open>user_id\<close>; \<open>lookups\<close> and
  \<open>daily_stats\<close> get increasing row ids and are visited in insertion order.
  \<open>lookups_seq\<close> is the \<open>AUTOINCREMENT\<close> counter of \<open>lookups\<close>.
\<close>

record db =
  users :: "user_row list"
  admins :: "admin_row list"
  banned :: "ban_row list"
  lookups :: "lookup_row list"
  lookups_seq :: int
  daily_stats :: "daily_row list"

definition empty_db :: db where
  "empty_db = \<lparr>users = [], admins = [], banned = [], lookups = [], lookups_seq = 0,
     daily_stats = []\<rparr>"

text \<open>\<open>init_db\<close>: every statement is \<open>CREATE TABLE IF NOT EXISTS\<close>; on a file that
  has the five tables it changes nothing. \<open>empty_db\<close> is what it leaves on a new file.\<close>

definition init_db :: "db \<Rightarrow> sql_error + db" where
  "init_db d = Inr d"

definition committed :: "db \<Rightarrow> sql_error + db \<Rightarrow> db" where
  "committed d r = (case r of Inl e \<Rightarrow> d | Inr d' \<Rightarrow> d')"

subsection \<open>Statements and their parameters\<close>

text \<open>
  The driver counts the \<open>?\<close> placeholders of a statement and raises
  \<open>ProgrammingError\<close> when the tuple it is given has another length. A \<open>?\<close>
  inside a quoted token (single or double quotes) is part of that token and no
  placeholder. \<open>count_params q sql\<close> scans the text; \<open>q\<close> is the quote that is open.
  The statement texts below are those of the module, with the line breaks and indentation
  of the multi-line ones replaced by single blanks. \<open>execute sql n r\<close> runs a statement
  that is given \<open>n\<close> parameters and whose effect or answer is \<open>r\<close>.
\<close>

fun count_params :: "char option \<Rightarrow> string \<Rightarrow> nat" where
  "count_params q [] = 0"
| "count_params None (c # cs) =
     (if c = CHR ''?'' then Suc (count_params None cs)
      else if c = CHR 0x27 \<or> c = CHR 0x22 then count_params (Some c) cs
      else count_params None cs)"
| "count_params (Some q) (c # cs) =
     (if c = q then count_params None cs else count_params (Some q) cs)"

definition execute :: "string \<Rightarrow> nat \<Rightarrow> 'a \<Rightarrow> sql_error + 'a" where
  "execute sql n r = (if count_params None sql = n then Inr r else Inl ProgrammingError)"

definition and_then :: "'e + 'a \<Rightarrow> ('a \<Rightarrow> 'e + 'b) \<Rightarrow> 'e + 'b" where
  "and_then r f = (case r of Inl e \<Rightarrow> Inl e | Inr x \<Rightarrow> f x)"

definition sql_update :: "('r \<Rightarrow> bool) \<Rightarrow> ('r \<Rightarrow> 'r) \<Rightarrow> 'r list \<Rightarrow> 'r list" where
  "sql_update P f rows = map (\<lambda>r. if P r then f r else r) rows"

definition sql_delete :: "('r \<Rightarrow> bool) \<Rightarrow> 'r list \<Rightarrow> 'r list" where
  "sql_delete P rows = filter (\<lambda>r. \<not> P r) rows"

definition sql_exists :: "('r \<Rightarrow> bool) \<Rightarrow> 'r list \<Rightarrow> bool" where
  "sql_exists P rows = list_ex P rows"

text \<open>\<open>LIMIT n\<close>: a negative \<open>n\<close> puts no bound on the number of rows.\<close>

definition sql_limit :: "int \<Rightarrow> 'r list \<Rightarrow> 'r list" where
  "sql_limit n rows = (if n < 0 then rows else take (nat n) rows)"

text \<open>The rows with a given primary key, as \<open>SELECT ... WHERE user_id = ?\<close> and
  \<open>fetchone\<close> read them.\<close>

definition user_of :: "int \<Rightarrow> db \<Rightarrow> user_row option" where
  "user_of uid d = find (\<lambda>u. user_id u = uid) (users d)"

definition admin_of :: "int \<Rightarrow> db \<Rightarrow> admin_row option" where
  "admin_of uid d = find (\<lambda>a. a_user_id a = uid) (admins d)"

definition ban_of :: "int \<Rightarrow> db \<Rightarrow> ban_row option" where
  "ban_of uid d = find (\<lambda>b. b_user_id b = uid) (banned d)"

definition daily_of :: "string \<Rightarrow> string \<Rightarrow> db \<Rightarrow> daily_row option" where
  "daily_of dt cmd d = find (\<lambda>r. date r = dt \<and> d_command r = cmd) (daily_stats d)"

subsection \<open>User functions\<close>

definition update_user_sql :: string where
  "update_user_sql = ''INSERT INTO users (user_id, first_seen, last_seen, username, first_name, last_name) VALUES (?, ?, ?, ?, ?, ?) ON CONFLICT(user_id) DO UPDATE SET last_seen=excluded.last_seen, username=excluded.username, first_name=excluded.first_name, last_name=excluded.last_name''"

text \<open>\<open>now\<close> is \<open>datetime.now().isoformat()\<close>. The insert leaves \<open>total_lookups\<close>
  to its default 0; on a conflict only the four listed columns are assigned.\<close>

definition update_user ::
  "string \<Rightarrow> int \<Rightarrow> string option \<Rightarrow> string option \<Rightarrow> string option \<Rightarrow> db \<Rightarrow> sql_error + db"
where
  "update_user now uid un fn ln d =
     execute update_user_sql 6
       (d\<lparr>users :=
          (if sql_exists (\<lambda>u. user_id u = uid) (users d)
           then sql_update (\<lambda>u. user_id u = uid)
                  (\<lambda>u. u\<lparr>last_seen := now, username := un, first_name := fn, last_name := ln\<rparr>)
                  (users d)
           else insort_key user_id
                  \<lparr>user_id = uid, first_seen = now, last_seen = now, total_lookups = 0,
                   username = un, first_name = fn, last_name = ln\<rparr>
                  (users d))\<rparr>)"

definition get_user :: "int \<Rightarrow> db \<Rightarrow> sql_error + user_row option" where
  "get_user uid d = execute ''SELECT * FROM users WHERE user_id = ?'' 1 (user_of uid d)"

subsection \<open>Admin functions\<close>

definition is_admin :: "int \<Rightarrow> db \<Rightarrow> sql_error + bool" where
  "is_admin uid d = execute ''SELECT 1 FROM admins WHERE user_id = ?'' 1 (admin_of uid d \<noteq> None)"

text \<open>\<open>INSERT OR IGNORE\<close>: a row whose key is taken is skipped without an error.
  \<open>cur_ts\<close> is the engine's \<open>CURRENT_TIMESTAMP\<close>, the default of \<open>added_on\<close>.\<close>

definition add_admin :: "string \<Rightarrow> int \<Rightarrow> int \<Rightarrow> db \<Rightarrow> sql_error + db" where
  "add_admin cur_ts uid by d =
     execute ''INSERT OR IGNORE INTO admins (user_id, added_by) VALUES (?, ?)'' 2
       (if sql_exists (\<lambda>a. a_user_id a = uid) (admins d) then d
        else d\<lparr>admins := insort_key a_user_id
               \<lparr>a_user_id = uid, added_by = by, added_on = cur_ts\<rparr> (admins d)\<rparr>)"

definition remove_admin :: "int \<Rightarrow> db \<Rightarrow> sql_error + db" where
  "remove_admin uid d =
     execute ''DELETE FROM admins WHERE user_id = ?'' 1
       (d\<lparr>admins := sql_delete (\<lambda>a. a_user_id a = uid) (admins d)\<rparr>)"

subsection \<open>Ban functions\<close>

definition is_banned :: "int \<Rightarrow> db \<Rightarrow> sql_error + bool" where
  "is_banned uid d = execute ''SELECT 1 FROM banned WHERE user_id = ?'' 1 (ban_of uid d \<noteq> None)"

text \<open>A plain \<open>INSERT\<close>: a taken primary key aborts the statement with a constraint
  violation, which the driver raises as \<open>IntegrityError\<close>.\<close>

definition ban_user :: "string \<Rightarrow> int \<Rightarrow> string \<Rightarrow> int \<Rightarrow> db \<Rightarrow> sql_error + db" where
  "ban_user cur_ts uid rsn by d =
     and_then (execute ''INSERT INTO banned (user_id, reason, banned_by) VALUES (?, ?, ?)'' 3 d)
       (\<lambda>d. if sql_exists (\<lambda>b. b_user_id b = uid) (banned d) then Inl IntegrityError
            else Inr (d\<lparr>banned := insort_key b_user_id
                   \<lparr>b_user_id = uid, reason = rsn, banned_by = by, banned_on = cur_ts\<rparr>
                   (banned d)\<rparr>))"

definition unban_user :: "int \<Rightarrow> db \<Rightarrow> sql_error + db" where
  "unban_user uid d =
     execute ''DELETE FROM banned WHERE user_id = ?'' 1
       (d\<lparr>banned := sql_delete (\<lambda>b. b_user_id b = uid) (banned d)\<rparr>)"

subsection \<open>Serialising a lookup result\<close>

text \<open>
  \<open>save_lookup\<close> stores \<open>json.dumps(result)\<close>. A result is a value that
  \<open>json.dumps\<close> accepts: \<open>None\<close>, a boolean, an integer, a string, a list or a
  dict with string keys (floating-point numbers are left out). \<open>json_dumps\<close> is the
  encoder with its default settings: items separated by a comma and a blank, keys by a
  colon and a blank, every character outside the printable ASCII range escaped.
\<close>

datatype json = JNull | JBool bool | JInt int | JStr string | JList "json list"
  | JDict "(string \<times> json) list"

definition hex_digit :: "nat \<Rightarrow> char" where
  "hex_digit n = ''0123456789abcdef'' ! (n mod 16)"

definition escape_char :: "char \<Rightarrow> string" where
  "escape_char c =
     (if c = CHR 0x22 then [CHR 0x5C, CHR 0x22]
      else if c = CHR 0x5C then [CHR 0x5C, CHR 0x5C]
      else if c = CHR 0x0A then [CHR 0x5C, CHR ''n'']
      else if c = CHR 0x0D then [CHR 0x5C, CHR ''r'']
      else if c = CHR 0x09 then [CHR 0x5C, CHR ''t'']
      else if c = CHR 0x08 then [CHR 0x5C, CHR ''b'']
      else if c = CHR 0x0C then [CHR 0x5C, CHR ''f'']
      else if (of_char c :: nat) < 0x20 \<or> 0x7E < (of_char c :: nat)
        then [CHR 0x5C, CHR ''u'', CHR ''0'', CHR ''0'',
              hex_digit (of_char c div 16), hex_digit (of_char c mod 16)]
      else [c])"

definition quote_str :: "string \<Rightarrow> string" where
  "quote_str s = CHR 0x22 # concat (map escape_char s) @ [CHR 0x22]"

fun digits :: "nat \<Rightarrow> string" where
  "digits n =
     (if n < 10 then [''0123456789'' ! n] else digits (n div 10) @ [''0123456789'' ! (n mod 10)])"

definition str_int :: "int \<Rightarrow> string" where
  "str_int i = (if i < 0 then CHR ''-'' # digits (nat (- i)) else digits (nat i))"

fun json_dumps :: "json \<Rightarrow> string"
  and dumps_elems :: "json list \<Rightarrow> string"
  and dumps_items :: "(string \<times> json) list \<Rightarrow> string"
where
  "json_dumps JNull = ''null''"
| "json_dumps (JBool b) = (if b then ''true'' else ''false'')"
| "json_dumps (JInt i) = str_int i"
| "json_dumps (JStr s) = quote_str s"
| "json_dumps (JList xs) = ''['' @ dumps_elems xs @ '']''"
| "json_dumps (JDict kvs) = ''{'' @ dumps_items kvs @ ''}''"
| "dumps_elems [] = []"
| "dumps_elems [x] = json_dumps x"
| "dumps_elems (x # y # ys) = json_dumps x @ '', '' @ dumps_elems (y # ys)"
| "dumps_items [] = []"
| "dumps_items [(k, v)] = quote_str k @ '': '' @ json_dumps v"
| "dumps_items ((k, v) # kv # kvs) =
     quote_str k @ '': '' @ json_dumps v @ '', '' @ dumps_items (kv # kvs)"

subsection \<open>Lookup functions\<close>

definition save_lookup_daily_sql :: string where
  "save_lookup_daily_sql = ''INSERT INTO daily_stats (date, command, count) VALUES (?, ?, 1) ON CONFLICT(date, command) DO UPDATE SET count = count + 1''"

text \<open>
  Three statements and one commit. \<open>cur_ts\<close> is \<open>CURRENT_TIMESTAMP\<close>, the default of
  \<open>timestamp\<close>; \<open>today\<close> is \<open>datetime.now().strftime('%Y-%m-%d')\<close>. The new
  lookup gets the next \<open>AUTOINCREMENT\<close> id. The \<open>UPDATE\<close> touches the rows its
  \<open>WHERE\<close> selects and is no error when it selects none.
\<close>

definition save_lookup ::
  "string \<Rightarrow> string \<Rightarrow> int \<Rightarrow> string \<Rightarrow> string \<Rightarrow> json \<Rightarrow> db \<Rightarrow> sql_error + db"
where
  "save_lookup cur_ts today uid cmd q res d =
     and_then
       (execute ''INSERT INTO lookups (user_id, command, query, result) VALUES (?, ?, ?, ?)'' 4
          (d\<lparr>lookups := lookups d @
                [\<lparr>l_id = lookups_seq d + 1, l_user_id = uid, command = cmd, query = q,
                  result = json_dumps res, timestamp = cur_ts\<rparr>],
             lookups_seq := lookups_seq d + 1\<rparr>))
       (\<lambda>d. and_then
          (execute ''UPDATE users SET total_lookups = total_lookups + 1 WHERE user_id = ?'' 1
             (d\<lparr>users := sql_update (\<lambda>u. user_id u = uid)
                     (\<lambda>u. u\<lparr>total_lookups := total_lookups u + 1\<rparr>) (users d)\<rparr>))
          (\<lambda>d. execute save_lookup_daily_sql 2
             (d\<lparr>daily_stats :=
                  (if sql_exists (\<lambda>r. date r = today \<and> d_command r = cmd) (daily_stats d)
                   then sql_update (\<lambda>r. date r = today \<and> d_command r = cmd)
                          (\<lambda>r. r\<lparr>d_count := d_count r + 1\<rparr>) (daily_stats d)
                   else daily_stats d @ [\<lparr>date = today, d_command = cmd, d_count = 1\<rparr>])\<rparr>)))"

text \<open>\<open>ORDER BY key DESC\<close>: the scanned rows sorted by descending key, rows with
  equal keys staying in scan order.\<close>

definition order_by_desc :: "('r \<Rightarrow> 'k::linorder) \<Rightarrow> 'r list \<Rightarrow> 'r list" where
  "order_by_desc key rows = rev (sort_key key (rev rows))"

definition get_leaderboard :: "int \<Rightarrow> db \<Rightarrow> sql_error + (int \<times> int) list" where
  "get_leaderboard limit d =
     execute ''SELECT user_id, total_lookups FROM users ORDER BY total_lookups DESC LIMIT ?'' 1
       (map (\<lambda>u. (user_id u, total_lookups u))
          (sql_limit limit (order_by_desc total_lookups (users d))))"

subsection \<open>Statistics\<close>

text \<open>\<open>COUNT(*)\<close> is the number of rows. \<open>SUM\<close> over no row is \<open>NULL\<close>
  (\<open>None\<close>), and \<open>x or 0\<close> is 0 when \<open>x\<close> is \<open>None\<close> or 0.\<close>

definition sql_count :: "'r list \<Rightarrow> int" where
  "sql_count rows = int (length rows)"

definition sql_sum :: "int list \<Rightarrow> int option" where
  "sql_sum xs = (if xs = [] then None else Some (sum_list xs))"

definition py_or :: "int option \<Rightarrow> int \<Rightarrow> int" where
  "py_or v dflt = (case v of None \<Rightarrow> dflt | Some x \<Rightarrow> if x = 0 then dflt else x)"

definition get_stats :: "db \<Rightarrow> sql_error + (string \<times> int) list" where
  "get_stats d =
     and_then (execute ''SELECT COUNT(*) FROM users'' 0 (sql_count (users d)))
     (\<lambda>n_users. and_then
        (execute ''SELECT SUM(total_lookups) FROM users'' 0
           (py_or (sql_sum (map total_lookups (users d))) 0))
     (\<lambda>n_lookups. and_then (execute ''SELECT COUNT(*) FROM admins'' 0 (sql_count (admins d)))
     (\<lambda>n_admins. and_then (execute ''SELECT COUNT(*) FROM banned'' 0 (sql_count (banned d)))
     (\<lambda>n_banned. Inr [(''total_users'', n_users), (''total_lookups'', n_lookups),
                      (''total_admins'', n_admins), (''total_banned'', n_banned)]))))"

definition get_daily_stats_sql :: string where
  "get_daily_stats_sql = ''SELECT date, command, count FROM daily_stats WHERE date >= date(\"now\", \"-? days\") ORDER BY date DESC''"

text \<open>
  \<open>get_daily_stats\<close> passes the one-element tuple \<open>(days,)\<close>. \<open>dqs\<close> says whether the
  engine was built to read a double-quoted token that names no column as a string
  literal; an engine built without that rejects the statement when it prepares it, before
  any parameter is looked at. \<open>sqlite_date\<close> is the engine's \<open>date\<close> function (\<open>None\<close>
  for SQL \<open>NULL\<close>); a comparison with \<open>NULL\<close> selects no row. \<open>ORDER BY date DESC\<close>
  sorts the selected rows.
\<close>

definition get_daily_stats ::
  "bool \<Rightarrow> (string \<Rightarrow> string \<Rightarrow> string option) \<Rightarrow> int \<Rightarrow> db \<Rightarrow> sql_error + daily_row list"
where
  "get_daily_stats dqs sqlite_date days d =
     (if \<not> dqs then Inl OperationalError
      else execute get_daily_stats_sql 1
        (order_by_desc date
           (filter (\<lambda>r. case sqlite_date ''now'' ''-? days'' of None \<Rightarrow> False
                         | Some cutoff \<Rightarrow> cutoff \<le> date r)
              (daily_stats d))))"

subsection \<open>Sequences of calls\<close>

text \<open>
  A caller uses the store through a sequence of calls. \<open>Query\<close> stands for any of the
  reading functions, which commit nothing. A call that raises leaves the database as it
  was, and the caller may go on with the next call.
\<close>

datatype call =
    Init_db
  | Update_user string int "string option" "string option" "string option"
  | Add_admin string int int
  | Remove_admin int
  | Ban_user string int string int
  | Unban_user int
  | Save_lookup string string int string string json
  | Query

fun call_result :: "call \<Rightarrow> db \<Rightarrow> sql_error + db" where
  "call_result Init_db d = init_db d"
| "call_result (Update_user now uid un fn ln) d = update_user now uid un fn ln d"
| "call_result (Add_admin cur_ts uid by) d = add_admin cur_ts uid by d"
| "call_result (Remove_admin uid) d = remove_admin uid d"
| "call_result (Ban_user cur_ts uid rsn by) d = ban_user cur_ts uid rsn by d"
| "call_result (Unban_user uid) d = unban_user uid d"
| "call_result (Save_lookup cur_ts today uid cmd q res) d = save_lookup cur_ts today uid cmd q res d"
| "call_result Query d = Inr d"

definition step :: "db \<Rightarrow> call \<Rightarrow> db" where
  "step d c = committed d (call_result c d)"

definition run :: "call list \<Rightarrow> db \<Rightarrow> db" where
  "run cs d = foldl step d cs"

text \<open>\<open>upserted_first seen cs\<close>: every \<open>save_lookup\<close> of \<open>cs\<close> is for a user id
  that is in \<open>seen\<close> or was passed to \<open>update_user\<close> earlier in \<open>cs\<close>.\<close>

fun upserted_first :: "int list \<Rightarrow> call list \<Rightarrow> bool" where
  "upserted_first seen [] = True"
| "upserted_first seen (Update_user now uid un fn ln # cs) = upserted_first (uid # seen) cs"
| "upserted_first seen (Save_lookup cur_ts today uid cmd q res # cs) =
     (uid \<in> set seen \<and> upserted_first seen cs)"
| "upserted_first seen (c # cs) = upserted_first seen cs"

text \<open>The number of \<open>lookups\<close> rows of a user.\<close>

definition lookup_count :: "int \<Rightarrow> db \<Rightarrow> int" where
  "lookup_count uid d = int (length (filter (\<lambda>l. l_user_id l = uid) (lookups d)))"

text \<open>
  The key constraints of the schema, on the scan-ordered tables: the three
  \<open>user_id\<close> keys strictly ascending, the lookup ids strictly ascending and not above the
  \<open>AUTOINCREMENT\<close> counter, and no two \<open>daily_stats\<close> rows with the same
  \<open>(date, command)\<close>.
\<close>

definition primary_keys :: "db \<Rightarrow> bool" where
  "primary_keys d \<longleftrightarrow>
     sorted_wrt (<) (map user_id (users d)) \<and>
     sorted_wrt (<) (map a_user_id (admins d)) \<and>
     sorted_wrt (<) (map b_user_id (banned d)) \<and>
     sorted_wrt (<) (map l_id (lookups d)) \<and>
     list_all (\<lambda>l. l_id l \<le> lookups_seq d) (lookups d) \<and>
     distinct (map (\<lambda>r. (date r, d_command r)) (daily_stats d))"

text \<open>
  The bookkeeping of \<open>total_lookups\<close>: every user's counter is the number of that
  user's lookups, and every lookup belongs to a user that has a row. \<open>seen\<close> are user
  ids known to have a row.
\<close>

definition lookup_inv :: "int list \<Rightarrow> db \<Rightarrow> bool" where
  "lookup_inv seen d \<longleftrightarrow>
     set seen \<subseteq> user_id ` set (users d) \<and>
     (\<forall>u \<in> set (users d). total_lookups u = lookup_count (user_id u) d) \<and>
     (\<forall>l \<in> set (lookups d). l_user_id l \<in> user_id ` set (users d))"

text \<open>The order of a leaderboard on its \<open>(user_id, total_lookups)\<close> pairs: more
  lookups first, and among equal numbers of lookups the smaller user id first.\<close>

definition ranks_before :: "int \<times> int \<Rightarrow> int \<times> int \<Rightarrow> bool" where
  "ranks_before a b \<longleftrightarrow> snd b < snd a \<or> (snd a = snd b \<and> fst a < fst b)"

subsection \<open>A small history\<close>

text \<open>Three users arrive, the last one makes a lookup, the second one becomes an admin
  and bans the first.\<close>

definition example_calls :: "call list" where
  "example_calls =
     [Update_user ''2024-05-01T10:00:00'' 7 (Some ''alice'') None None,
      Update_user ''2024-05-01T10:05:00'' 3 None (Some ''Bob'') None,
      Update_user ''2024-05-01T10:06:00'' 9 None None (Some ''Lee''),
      Save_lookup ''2024-05-01 08:06:30'' ''2024-05-01'' 9 ''phone'' ''+100''
        (JDict [(''a'', JInt 1)]),
      Add_admin ''2024-05-01 08:07:00'' 3 7,
      Ban_user ''2024-05-01 08:08:00'' 7 ''spam'' 3]"

definition example_db :: db where
  "example_db = run example_calls empty_db"

section \<open>Properties\<close>

subsection \<open>The functions without their statement texts\<close>

text \<open>Every statement of the module except the one of \<open>get_daily_stats\<close> is given as
  many parameters as it has placeholders, so that \<open>execute\<close> runs it.\<close>

lemma update_user_Inr:
  "update_user now uid un fn ln d =
     Inr (d\<lparr>users :=
          (if sql_exists (\<lambda>u. user_id u = uid) (users d)
           then sql_update (\<lambda>u. user_id u = uid)
                  (\<lambda>u. u\<lparr>last_seen := now, username := un, first_name := fn, last_name := ln\<rparr>)
                  (users d)
           else insort_key user_id
                  \<lparr>user_id = uid, first_seen = now, last_seen = now, total_lookups = 0,
                   username = un, first_name = fn, last_name = ln\<rparr>
                  (users d))\<rparr>)"
  by (simp add: update_user_def execute_def update_user_sql_def)

lemma add_admin_Inr:
  "add_admin cur_ts uid by d =
     Inr (if sql_exists (\<lambda>a. a_user_id a = uid) (admins d) then d
        else d\<lparr>admins := insort_key a_user_id
               \<lparr>a_user_id = uid, added_by = by, added_on = cur_ts\<rparr> (admins d)\<rparr>)"
  by (simp add: add_admin_def execute_def)

lemma remove_admin_Inr:
  "remove_admin uid d = Inr (d\<lparr>admins := sql_delete (\<lambda>a. a_user_id a = uid) (admins d)\<rparr>)"
  by (simp add: remove_admin_def execute_def)

lemma ban_user_eq:
  "ban_user cur_ts uid rsn by d =
     (if sql_exists (\<lambda>b. b_user_id b = uid) (banned d) then Inl IntegrityError
      else Inr (d\<lparr>banned := insort_key b_user_id
                   \<lparr>b_user_id = uid, reason = rsn, banned_by = by, banned_on = cur_ts\<rparr>
                   (banned d)\<rparr>))"
  by (simp add: ban_user_def execute_def and_then_def)

lemma unban_user_Inr:
  "unban_user uid d = Inr (d\<lparr>banned := sql_delete (\<lambda>b. b_user_id b = uid) (banned d)\<rparr>)"
  by (simp add: unban_user_def execute_def)

lemma save_lookup_Inr:
  "save_lookup cur_ts today uid cmd q res d =
     Inr (d\<lparr>lookups := lookups d @
                [\<lparr>l_id = lookups_seq d + 1, l_user_id = uid, command = cmd, query = q,
                  result = json_dumps res, timestamp = cur_ts\<rparr>],
             lookups_seq := lookups_seq d + 1,
             users := sql_update (\<lambda>u. user_id u = uid)
                     (\<lambda>u. u\<lparr>total_lookups := total_lookups u + 1\<rparr>) (users d),
             daily_stats :=
                  (if sql_exists (\<lambda>r. date r = today \<and> d_command r = cmd) (daily_stats d)
                   then sql_update (\<lambda>r. date r = today \<and> d_command r = cmd)
                          (\<lambda>r. r\<lparr>d_count := d_count r + 1\<rparr>) (daily_stats d)
                   else daily_stats d @ [\<lparr>date = today, d_command = cmd, d_count = 1\<rparr>])\<rparr>)"
  by (simp add: save_lookup_def execute_def and_then_def save_lookup_daily_sql_def)

lemma get_leaderboard_Inr:
  "get_leaderboard limit d =
     Inr (map (\<lambda>u. (user_id u, total_lookups u))
          (sql_limit limit (order_by_desc total_lookups (users d))))"
  by (simp add: get_leaderboard_def execute_def)

lemma is_banned_Inr: "is_banned uid d = Inr (ban_of uid d \<noteq> None)"
  by (simp add: is_banned_def execute_def)

lemma is_admin_Inr: "is_admin uid d = Inr (admin_of uid d \<noteq> None)"
  by (simp add: is_admin_def execute_def)

lemma get_user_Inr: "get_user uid d = Inr (user_of uid d)"
  by (simp add: get_user_def execute_def)

subsection \<open>Rows found after a statement\<close>

lemma find_sql_update_same:
  "(\<And>r. P (f r) = P r) \<Longrightarrow> find P (sql_update P f rows) = map_option f (find P rows)"
  by (induction rows) (simp_all add: sql_update_def)


lemma filter_sql_update_other:
  "(\<And>r. P (f r) = P r) \<Longrightarrow>
   filter (\<lambda>r. \<not> P r) (sql_update P f rows) = filter (\<lambda>r. \<not> P r) rows"
  by (induction rows) (simp_all add: sql_update_def)

lemma sql_update_none: "\<not> sql_exists P rows \<Longrightarrow> sql_update P f rows = rows"
  by (induction rows) (simp_all add: sql_update_def sql_exists_def)

lemma find_insort_key_new:
  "P x \<Longrightarrow> \<not> sql_exists P rows \<Longrightarrow> find P (insort_key k x rows) = Some x"
  by (induction rows) (simp_all add: sql_exists_def)

lemma find_None_sql_exists: "find P rows = None \<longleftrightarrow> \<not> sql_exists P rows"
  by (auto simp: find_None_iff sql_exists_def list_ex_iff)

lemma sql_exists_sql_delete: "\<not> sql_exists P (sql_delete P rows)"
  by (simp add: sql_exists_def sql_delete_def list_ex_iff)

lemma sql_exists_insort_key: "sql_exists P (insort_key k x rows) \<longleftrightarrow> P x \<or> sql_exists P rows"
  by (auto simp: sql_exists_def list_ex_iff set_insort_key)

lemma filter_insort_key_other:
  "\<not> P x \<Longrightarrow> filter P (insort_key k x rows) = filter P rows"
  by (induction rows) simp_all

lemma filter_none: "\<not> sql_exists P rows \<Longrightarrow> filter P rows = []"
  by (induction rows) (simp_all add: sql_exists_def)

lemma filter_insort_key_new:
  "P x \<Longrightarrow> \<not> sql_exists P rows \<Longrightarrow> filter P (insort_key k x rows) = [x]"
  by (induction rows) (auto simp: sql_exists_def dest: filter_none [unfolded sql_exists_def])

lemma find_append_new:
  "\<not> sql_exists P rows \<Longrightarrow> find P (rows @ rest) = find P rest"
  by (induction rows) (simp_all add: sql_exists_def)

lemma save_lookup_daily:
  "\<exists>d'. save_lookup cur_ts today uid cmd q res d = Inr d' \<and>
     lookups d' = lookups d @
       [\<lparr>l_id = lookups_seq d + 1, l_user_id = uid, command = cmd, query = q,
         result = json_dumps res, timestamp = cur_ts\<rparr>] \<and>
     daily_of today cmd d' =
       Some (case daily_of today cmd d of
               None \<Rightarrow> \<lparr>date = today, d_command = cmd, d_count = 1\<rparr>
             | Some r \<Rightarrow> r\<lparr>d_count := d_count r + 1\<rparr>) \<and>
     filter (\<lambda>r. \<not> (date r = today \<and> d_command r = cmd)) (daily_stats d') =
       filter (\<lambda>r. \<not> (date r = today \<and> d_command r = cmd)) (daily_stats d)"
proof -
  let ?D = "\<lambda>r. date r = today \<and> d_command r = cmd"
  let ?bump = "\<lambda>r. r\<lparr>d_count := d_count r + (1::int)\<rparr>"
  have d1: "find ?D (sql_update ?D ?bump (daily_stats d)) = map_option ?bump (find ?D (daily_stats d))"
    by (rule find_sql_update_same) simp
  have d2: "filter (\<lambda>r. \<not> ?D r) (sql_update ?D ?bump (daily_stats d)) = filter (\<lambda>r. \<not> ?D r) (daily_stats d)"
    by (rule filter_sql_update_other) simp
  have d3: "daily_of today cmd d = None \<longleftrightarrow> \<not> sql_exists ?D (daily_stats d)"
    by (simp add: daily_of_def find_None_sql_exists)
  show ?thesis
    using d1 d2 d3
    by (cases "daily_of today cmd d")
       (auto simp: save_lookup_Inr daily_of_def find_append_new)
qed

subsection \<open>Recording a lookup\<close>


subsection \<open>The example history, evaluated\<close>

lemma example_db_eq:
  "example_db =
     \<lparr>users =
        [\<lparr>user_id = 3, first_seen = ''2024-05-01T10:05:00'', last_seen = ''2024-05-01T10:05:00'',
          total_lookups = 0, username = None, first_name = Some ''Bob'', last_name = None\<rparr>,
         \<lparr>user_id = 7, first_seen = ''2024-05-01T10:00:00'', last_seen = ''2024-05-01T10:00:00'',
          total_lookups = 0, username = Some ''alice'', first_name = None, last_name = None\<rparr>,
         \<lparr>user_id = 9, first_seen = ''2024-05-01T10:06:00'', last_seen = ''2024-05-01T10:06:00'',
          total_lookups = 1, username = None, first_name = None, last_name = Some ''Lee''\<rparr>],
      admins = [\<lparr>a_user_id = 3, added_by = 7, added_on = ''2024-05-01 08:07:00''\<rparr>],
      banned = [\<lparr>b_user_id = 7, reason = ''spam'', banned_by = 3,
                 banned_on = ''2024-05-01 08:08:00''\<rparr>],
      lookups = [\<lparr>l_id = 1, l_user_id = 9, command = ''phone'', query = ''+100'',
                  result = [CHR ''{'', CHR 0x22, CHR ''a'', CHR 0x22, CHR '':'', CHR '' '', CHR ''1'', CHR ''}''],
                  timestamp = ''2024-05-01 08:06:30''\<rparr>],
      lookups_seq = 1,
      daily_stats = [\<lparr>date = ''2024-05-01'', d_command = ''phone'', d_count = 1\<rparr>]\<rparr>"
  by (simp add: example_db_def example_calls_def run_def step_def committed_def empty_db_def
      update_user_Inr save_lookup_Inr add_admin_Inr ban_user_eq sql_exists_def sql_update_def
      quote_str_def escape_char_def str_int_def)




text \<open>C9. When the user id has no row in \<open>users\<close>, \<open>save_lookup\<close> still returns
  without an error, appends the \<open>lookups\<close> row and counts the lookup in
  \<open>daily_stats\<close>, and the \<open>users\<close> table is exactly what it was: no row is
  created and no counter is incremented.\<close>

theorem save_lookup_unknown_user:
  "user_of uid d = None \<Longrightarrow>
   \<exists>d'. save_lookup cur_ts today uid cmd q res d = Inr d' \<and>
     users d' = users d \<and>
     lookups d' = lookups d @
       [\<lparr>l_id = lookups_seq d + 1, l_user_id = uid, command = cmd, query = q,
         result = json_dumps res, timestamp = cur_ts\<rparr>] \<and>
     daily_of today cmd d' =
       Some (case daily_of today cmd d of
               None \<Rightarrow> \<lparr>date = today, d_command = cmd, d_count = 1\<rparr>
             | Some r \<Rightarrow> r\<lparr>d_count := d_count r + 1\<rparr>)"
proof -
  assume "user_of uid d = None"
  then have "sql_update (\<lambda>u. user_id u = uid)
      (\<lambda>u. u\<lparr>total_lookups := total_lookups u + 1\<rparr>) (users d) = users d"
    by (simp add: user_of_def find_None_sql_exists sql_update_none)
  moreover obtain d' where "save_lookup cur_ts today uid cmd q res d = Inr d'"
    and "lookups d' = lookups d @
       [\<lparr>l_id = lookups_seq d + 1, l_user_id = uid, command = cmd, query = q,
         result = json_dumps res, timestamp = cur_ts\<rparr>]"
    and "daily_of today cmd d' =
       Some (case daily_of today cmd d of
               None \<Rightarrow> \<lparr>date = today, d_command = cmd, d_count = 1\<rparr>
             | Some r \<Rightarrow> r\<lparr>d_count := d_count r + 1\<rparr>)"
    using save_lookup_daily by blast
  ultimately show ?thesis
    by (auto simp: save_lookup_Inr)
qed


theorem save_lookup_unknown_user_witness:
  "user_of 5 example_db = None \<and>
   save_lookup ''2024-05-02 09:00:00'' ''2024-05-02'' 5 ''phone'' ''+300'' (JInt 0) example_db =
     Inr (example_db\<lparr>
       lookups := lookups example_db @
         [\<lparr>l_id = 2, l_user_id = 5, command = ''phone'', query = ''+300'',
           result = ''0'', timestamp = ''2024-05-02 09:00:00''\<rparr>],
       lookups_seq := 2,
       daily_stats := [\<lparr>date = ''2024-05-01'', d_command = ''phone'', d_count = 1\<rparr>,
                       \<lparr>date = ''2024-05-02'', d_command = ''phone'', d_count = 1\<rparr>]\<rparr>)"
proof -
  have h: "user_of 5 example_db = None"
    by (simp add: user_of_def example_db_eq)
  show ?thesis
    using h save_lookup_unknown_user
      [OF h, of "''2024-05-02 09:00:00''" "''2024-05-02''" "''phone''" "''+300''" "JInt 0"]
    by (simp add: save_lookup_Inr example_db_eq sql_exists_def sql_update_def str_int_def)
qed

subsection \<open>Upserting a user\<close>

lemma update_user_row:
  "\<exists>d'. update_user now uid un fn ln d = Inr d' \<and>
     user_of uid d' =
       Some (case user_of uid d of
               None \<Rightarrow> \<lparr>user_id = uid, first_seen = now, last_seen = now, total_lookups = 0,
                         username = un, first_name = fn, last_name = ln\<rparr>
             | Some u \<Rightarrow> u\<lparr>last_seen := now, username := un, first_name := fn, last_name := ln\<rparr>) \<and>
     filter (\<lambda>u. user_id u \<noteq> uid) (users d') = filter (\<lambda>u. user_id u \<noteq> uid) (users d) \<and>
     lookups d' = lookups d \<and> admins d' = admins d \<and> banned d' = banned d \<and>
     daily_stats d' = daily_stats d"
proof -
  let ?U = "\<lambda>u. user_id u = uid"
  let ?set = "\<lambda>u. u\<lparr>last_seen := now, username := un, first_name := fn, last_name := ln\<rparr>"
  have u1: "find ?U (sql_update ?U ?set (users d)) = map_option ?set (find ?U (users d))"
    by (rule find_sql_update_same) simp
  have u2: "filter (\<lambda>u. \<not> ?U u) (sql_update ?U ?set (users d)) = filter (\<lambda>u. \<not> ?U u) (users d)"
    by (rule filter_sql_update_other) simp
  have u3: "user_of uid d = None \<longleftrightarrow> \<not> sql_exists ?U (users d)"
    by (simp add: user_of_def find_None_sql_exists)
  show ?thesis
    using u1 u2 u3
    by (cases "user_of uid d")
       (auto simp: update_user_Inr user_of_def find_insort_key_new filter_insort_key_other)
qed

text \<open>C3. For every user id, \<open>update_user\<close> called twice returns without an error both
  times. The first call inserts the row with \<open>first_seen\<close> set to its time and
  \<open>total_lookups\<close> 0, or, when the user already had a row, keeps that row's
  \<open>first_seen\<close> and \<open>total_lookups\<close>. The second call overwrites \<open>last_seen\<close>,
  \<open>username\<close>, \<open>first_name\<close> and \<open>last_name\<close> of the row with its own values (a
  \<open>None\<close> is stored as it is, nothing of the earlier names is kept) and leaves every
  other field, \<open>first_seen\<close> and \<open>total_lookups\<close> in particular, as the row had them
  before the call. The same holds for a call on any database in which the user has a row.\<close>

theorem update_user_twice:
  "\<exists>d1 d2 u1 u2. update_user now1 uid un1 fn1 ln1 d = Inr d1 \<and>
     update_user now2 uid un2 fn2 ln2 d1 = Inr d2 \<and>
     get_user uid d1 = Inr (Some u1) \<and> get_user uid d2 = Inr (Some u2) \<and>
     u1 = (case user_of uid d of
             None \<Rightarrow> \<lparr>user_id = uid, first_seen = now1, last_seen = now1, total_lookups = 0,
                       username = un1, first_name = fn1, last_name = ln1\<rparr>
           | Some u \<Rightarrow> u\<lparr>last_seen := now1, username := un1, first_name := fn1,
                        last_name := ln1\<rparr>) \<and>
     u2 = u1\<lparr>last_seen := now2, username := un2, first_name := fn2, last_name := ln2\<rparr> \<and>
     last_seen u2 = now2 \<and> username u2 = un2 \<and> first_name u2 = fn2 \<and> last_name u2 = ln2 \<and>
     first_seen u2 = (case user_of uid d of None \<Rightarrow> now1 | Some u \<Rightarrow> first_seen u) \<and>
     total_lookups u2 = (case user_of uid d of None \<Rightarrow> 0 | Some u \<Rightarrow> total_lookups u) \<and>
     filter (\<lambda>u. user_id u \<noteq> uid) (users d2) = filter (\<lambda>u. user_id u \<noteq> uid) (users d) \<and>
     lookups d2 = lookups d \<and> admins d2 = admins d \<and> banned d2 = banned d \<and>
     daily_stats d2 = daily_stats d"
proof -
  let ?u1 = "case user_of uid d of
      None \<Rightarrow> \<lparr>user_id = uid, first_seen = now1, last_seen = now1, total_lookups = 0,
                username = un1, first_name = fn1, last_name = ln1\<rparr>
    | Some u \<Rightarrow> u\<lparr>last_seen := now1, username := un1, first_name := fn1, last_name := ln1\<rparr>"
  obtain d1 where 1: "update_user now1 uid un1 fn1 ln1 d = Inr d1" "user_of uid d1 = Some ?u1"
    and f1: "filter (\<lambda>u. user_id u \<noteq> uid) (users d1) = filter (\<lambda>u. user_id u \<noteq> uid) (users d)"
      "lookups d1 = lookups d" "admins d1 = admins d" "banned d1 = banned d"
      "daily_stats d1 = daily_stats d"
    using update_user_row [of now1 uid un1 fn1 ln1 d] by blast
  obtain d2 where 2: "update_user now2 uid un2 fn2 ln2 d1 = Inr d2"
     "user_of uid d2 =
       Some (?u1\<lparr>last_seen := now2, username := un2, first_name := fn2, last_name := ln2\<rparr>)"
    and f2: "filter (\<lambda>u. user_id u \<noteq> uid) (users d2) = filter (\<lambda>u. user_id u \<noteq> uid) (users d1)"
      "lookups d2 = lookups d1" "admins d2 = admins d1" "banned d2 = banned d1"
      "daily_stats d2 = daily_stats d1"
    using update_user_row [of now2 uid un2 fn2 ln2 d1] 1(2) by auto
  from 1 2 f1 f2 show ?thesis
    by (cases "user_of uid d") (simp_all add: get_user_Inr)
qed

theorem update_user_twice_witness:
  "user_of 9 example_db =
     Some \<lparr>user_id = 9, first_seen = ''2024-05-01T10:06:00'', last_seen = ''2024-05-01T10:06:00'',
           total_lookups = 1, username = None, first_name = None, last_name = Some ''Lee''\<rparr> \<and>
   get_user 9 (committed (committed example_db
       (update_user ''2024-05-03T12:00:00'' 9 (Some ''lee9'') (Some ''Lee'') None example_db))
       (update_user ''2024-05-04T12:00:00'' 9 None None None (committed example_db
          (update_user ''2024-05-03T12:00:00'' 9 (Some ''lee9'') (Some ''Lee'') None example_db)))) =
     Inr (Some \<lparr>user_id = 9, first_seen = ''2024-05-01T10:06:00'',
                last_seen = ''2024-05-04T12:00:00'', total_lookups = 1, username = None,
                first_name = None, last_name = None\<rparr>) \<and>
   get_user 11 (committed (committed example_db
       (update_user ''2024-05-03T12:00:00'' 11 (Some ''carol'') (Some ''Carol'') (Some ''C'') example_db))
       (update_user ''2024-05-04T12:00:00'' 11 None None None (committed example_db
          (update_user ''2024-05-03T12:00:00'' 11 (Some ''carol'') (Some ''Carol'') (Some ''C'')
             example_db)))) =
     Inr (Some \<lparr>user_id = 11, first_seen = ''2024-05-03T12:00:00'',
                last_seen = ''2024-05-04T12:00:00'', total_lookups = 0, username = None,
                first_name = None, last_name = None\<rparr>)"
  using update_user_twice
    [of "''2024-05-03T12:00:00''" 9 "Some ''lee9''" "Some ''Lee''" None example_db
        "''2024-05-04T12:00:00''" None None None]
    update_user_twice
    [of "''2024-05-03T12:00:00''" 11 "Some ''carol''" "Some ''Carol''" "Some ''C''" example_db
        "''2024-05-04T12:00:00''" None None None]
  by (simp add: update_user_Inr get_user_Inr committed_def user_of_def example_db_eq
      sql_exists_def sql_update_def)

subsection \<open>Bans\<close>

text \<open>C4. For every user id that has a row in \<open>banned\<close>, \<open>ban_user\<close> raises the
  engine's primary-key violation (\<open>IntegrityError\<close>), and the database after the failed
  call is the database before it.\<close>

theorem ban_user_again_raises:
  "ban_of uid d \<noteq> None \<Longrightarrow>
   ban_user cur_ts uid rsn by d = Inl IntegrityError \<and>
   committed d (ban_user cur_ts uid rsn by d) = d"
  by (simp add: ban_user_eq ban_of_def find_None_sql_exists committed_def)

theorem ban_user_again_raises_witness:
  "ban_of 7 example_db \<noteq> None \<and>
   ban_user ''2024-05-05 10:00:00'' 7 ''again'' 3 example_db = Inl IntegrityError \<and>
   banned (committed example_db (ban_user ''2024-05-05 10:00:00'' 7 ''again'' 3 example_db)) =
     [\<lparr>b_user_id = 7, reason = ''spam'', banned_by = 3, banned_on = ''2024-05-01 08:08:00''\<rparr>]"
proof -
  have h: "ban_of 7 example_db \<noteq> None"
    by (simp add: ban_of_def example_db_eq)
  have b: "banned example_db =
     [\<lparr>b_user_id = 7, reason = ''spam'', banned_by = 3, banned_on = ''2024-05-01 08:08:00''\<rparr>]"
    by (simp add: example_db_eq)
  from ban_user_again_raises [OF h, of "''2024-05-05 10:00:00''" "''again''" 3] h b
  show ?thesis by (simp add: committed_def)
qed


subsection \<open>Admins\<close>

lemma sql_exists_key: "sql_exists (\<lambda>r. k r = v) rows \<longleftrightarrow> v \<in> k ` set rows"
  by (auto simp: sql_exists_def list_ex_iff)

lemma one_row_per_key:
  "distinct (map k rows) \<Longrightarrow> sql_exists (\<lambda>r. k r = v) rows \<Longrightarrow>
   length (filter (\<lambda>r. k r = v) rows) = 1"
proof (induction rows)
  case Nil
  then show ?case by (simp add: sql_exists_def)
next
  case (Cons r rows)
  show ?case
  proof (cases "k r = v")
    case True
    with Cons.prems(1) have "\<not> sql_exists (\<lambda>r. k r = v) rows"
      by (simp add: sql_exists_key)
    with True show ?thesis by (simp add: filter_none)
  next
    case False
    with Cons show ?thesis by (simp add: sql_exists_def)
  qed
qed

lemma strict_sorted_distinct: "sorted_wrt (<) (map k rows) \<Longrightarrow> distinct (map (k :: 'r \<Rightarrow> int) rows)"
  by (simp add: strict_sorted_iff)

text \<open>C5. For every user id, calling \<open>add_admin\<close> twice raises nothing, and the second
  call returns the database the first call left: the row of that user id keeps its
  \<open>added_by\<close> and \<open>added_on\<close>, which are those of the first call when that call
  inserted the row. On a database that satisfies its key constraints the \<open>admins\<close> table
  then holds exactly one row of that user id.\<close>

theorem add_admin_twice:
  "\<exists>d1. add_admin ts1 uid by1 d = Inr d1 \<and>
     add_admin ts2 uid by2 d1 = Inr d1 \<and>
     is_admin uid d1 = Inr True \<and>
     admin_of uid d1 =
       Some (case admin_of uid d of
               None \<Rightarrow> \<lparr>a_user_id = uid, added_by = by1, added_on = ts1\<rparr>
             | Some a \<Rightarrow> a) \<and>
     (primary_keys d \<longrightarrow> length (filter (\<lambda>a. a_user_id a = uid) (admins d1)) = 1)"
proof (cases "sql_exists (\<lambda>a. a_user_id a = uid) (admins d)")
  case True
  then have "admin_of uid d \<noteq> None"
    by (simp add: admin_of_def find_None_sql_exists)
  then obtain a where "admin_of uid d = Some a"
    by blast
  moreover have "length (filter (\<lambda>a. a_user_id a = uid) (admins d)) = 1" if "primary_keys d"
    using that True by (intro one_row_per_key) (simp_all add: primary_keys_def strict_sorted_distinct)
  ultimately show ?thesis
    using True by (simp add: add_admin_Inr is_admin_Inr)
next
  case False
  then have "admin_of uid d = None"
    by (simp add: admin_of_def find_None_sql_exists)
  with False show ?thesis
    by (simp add: add_admin_Inr is_admin_Inr sql_exists_insort_key admin_of_def
        find_insort_key_new filter_insort_key_new)
qed

lemma primary_keys_example_db: "primary_keys example_db"
  by (simp add: primary_keys_def example_db_eq)

theorem add_admin_twice_witness:
  "primary_keys example_db \<and>
   add_admin ''2024-05-06 10:00:00'' 7 3 example_db =
     Inr (example_db\<lparr>admins :=
       [\<lparr>a_user_id = 3, added_by = 7, added_on = ''2024-05-01 08:07:00''\<rparr>,
        \<lparr>a_user_id = 7, added_by = 3, added_on = ''2024-05-06 10:00:00''\<rparr>]\<rparr>) \<and>
   add_admin ''2024-05-07 10:00:00'' 7 9
       (example_db\<lparr>admins :=
       [\<lparr>a_user_id = 3, added_by = 7, added_on = ''2024-05-01 08:07:00''\<rparr>,
        \<lparr>a_user_id = 7, added_by = 3, added_on = ''2024-05-06 10:00:00''\<rparr>]\<rparr>) =
     Inr (example_db\<lparr>admins :=
       [\<lparr>a_user_id = 3, added_by = 7, added_on = ''2024-05-01 08:07:00''\<rparr>,
        \<lparr>a_user_id = 7, added_by = 3, added_on = ''2024-05-06 10:00:00''\<rparr>]\<rparr>)"
  using primary_keys_example_db
    add_admin_twice [of "''2024-05-06 10:00:00''" 7 3 example_db "''2024-05-07 10:00:00''" 9]
  by (simp add: add_admin_Inr example_db_eq sql_exists_def)

text \<open>C10. For every user id (in particular one that is banned), \<open>unban_user\<close> followed by
  \<open>ban_user\<close> raises nothing, and afterwards the user is banned by exactly one row, which
  holds the new reason and \<open>banned_by\<close>; the bans of other users are untouched.\<close>

theorem unban_then_ban:
  "\<exists>d1 d2. unban_user uid d = Inr d1 \<and>
     ban_user cur_ts uid rsn by d1 = Inr d2 \<and>
     ban_of uid d2 = Some \<lparr>b_user_id = uid, reason = rsn, banned_by = by, banned_on = cur_ts\<rparr> \<and>
     is_banned uid d2 = Inr True \<and>
     filter (\<lambda>b. b_user_id b = uid) (banned d2) =
       [\<lparr>b_user_id = uid, reason = rsn, banned_by = by, banned_on = cur_ts\<rparr>] \<and>
     filter (\<lambda>b. b_user_id b \<noteq> uid) (banned d2) = filter (\<lambda>b. b_user_id b \<noteq> uid) (banned d)"
  by (simp add: unban_user_Inr ban_user_eq sql_exists_sql_delete ban_of_def is_banned_Inr
      find_insort_key_new filter_insort_key_new filter_insort_key_other)
    (simp add: sql_delete_def)

theorem unban_then_ban_witness:
  "is_banned 7 example_db = Inr True \<and>
   unban_user 7 example_db = Inr (example_db\<lparr>banned := []\<rparr>) \<and>
   ban_user ''2024-05-08 10:00:00'' 7 ''flood'' 9 (example_db\<lparr>banned := []\<rparr>) =
     Inr (example_db\<lparr>banned :=
       [\<lparr>b_user_id = 7, reason = ''flood'', banned_by = 9, banned_on = ''2024-05-08 10:00:00''\<rparr>]\<rparr>)"
  using unban_then_ban [of 7 example_db "''2024-05-08 10:00:00''" "''flood''" 9]
  by (simp add: unban_user_Inr ban_user_eq is_banned_Inr ban_of_def example_db_eq
      sql_exists_def sql_delete_def)

subsection \<open>Overall statistics\<close>

lemma get_stats_Inr:
  "get_stats d =
     Inr [(''total_users'', sql_count (users d)),
          (''total_lookups'', py_or (sql_sum (map total_lookups (users d))) 0),
          (''total_admins'', sql_count (admins d)),
          (''total_banned'', sql_count (banned d))]"
  by (simp add: get_stats_def execute_def and_then_def)

text \<open>C7. In every database \<open>get_stats\<close> returns the four totals: the numbers of
  \<open>users\<close>, \<open>admins\<close> and \<open>banned\<close> rows, and as \<open>total_lookups\<close> the sum of
  \<open>total_lookups\<close> over all user rows, which is 0 when there is no user.\<close>

theorem get_stats_totals:
  "get_stats d =
     Inr [(''total_users'', int (length (users d))),
          (''total_lookups'', sum_list (map total_lookups (users d))),
          (''total_admins'', int (length (admins d))),
          (''total_banned'', int (length (banned d)))] \<and>
   (users d = [] \<longrightarrow>
      map_of (case get_stats d of Inl e \<Rightarrow> [] | Inr r \<Rightarrow> r) ''total_lookups'' = Some 0)"
  by (simp add: get_stats_Inr sql_count_def sql_sum_def py_or_def)

theorem get_stats_totals_witness:
  "get_stats example_db =
     Inr [(''total_users'', 3), (''total_lookups'', 1), (''total_admins'', 1), (''total_banned'', 1)] \<and>
   users empty_db = [] \<and>
   get_stats empty_db =
     Inr [(''total_users'', 0), (''total_lookups'', 0), (''total_admins'', 0), (''total_banned'', 0)]"
  using get_stats_totals [of example_db] get_stats_totals [of empty_db]
  by (simp add: example_db_eq empty_db_def)


subsection \<open>Single calls\<close>

lemma step_simps:
  "step d Init_db = d"
  "step d Query = d"
  "step d (Update_user now uid un fn ln) = d\<lparr>users :=
          (if sql_exists (\<lambda>u. user_id u = uid) (users d)
           then sql_update (\<lambda>u. user_id u = uid)
                  (\<lambda>u. u\<lparr>last_seen := now, username := un, first_name := fn, last_name := ln\<rparr>)
                  (users d)
           else insort_key user_id
                  \<lparr>user_id = uid, first_seen = now, last_seen = now, total_lookups = 0,
                   username = un, first_name = fn, last_name = ln\<rparr>
                  (users d))\<rparr>"
  "step d (Add_admin cur_ts uid by) =
     (if sql_exists (\<lambda>a. a_user_id a = uid) (admins d) then d
        else d\<lparr>admins := insort_key a_user_id
               \<lparr>a_user_id = uid, added_by = by, added_on = cur_ts\<rparr> (admins d)\<rparr>)"
  "step d (Remove_admin uid) = d\<lparr>admins := sql_delete (\<lambda>a. a_user_id a = uid) (admins d)\<rparr>"
  "step d (Ban_user cur_ts uid rsn by) =
     (if sql_exists (\<lambda>b. b_user_id b = uid) (banned d) then d
      else d\<lparr>banned := insort_key b_user_id
                   \<lparr>b_user_id = uid, reason = rsn, banned_by = by, banned_on = cur_ts\<rparr>
                   (banned d)\<rparr>)"
  "step d (Unban_user uid) = d\<lparr>banned := sql_delete (\<lambda>b. b_user_id b = uid) (banned d)\<rparr>"
  "step d (Save_lookup cur_ts today uid cmd q res) =
     d\<lparr>lookups := lookups d @
                [\<lparr>l_id = lookups_seq d + 1, l_user_id = uid, command = cmd, query = q,
                  result = json_dumps res, timestamp = cur_ts\<rparr>],
             lookups_seq := lookups_seq d + 1,
             users := sql_update (\<lambda>u. user_id u = uid)
                     (\<lambda>u. u\<lparr>total_lookups := total_lookups u + 1\<rparr>) (users d),
             daily_stats :=
                  (if sql_exists (\<lambda>r. date r = today \<and> d_command r = cmd) (daily_stats d)
                   then sql_update (\<lambda>r. date r = today \<and> d_command r = cmd)
                          (\<lambda>r. r\<lparr>d_count := d_count r + 1\<rparr>) (daily_stats d)
                   else daily_stats d @ [\<lparr>date = today, d_command = cmd, d_count = 1\<rparr>])\<rparr>"
  by (simp_all add: step_def committed_def init_db_def update_user_Inr add_admin_Inr
      remove_admin_Inr ban_user_eq unban_user_Inr save_lookup_Inr)

lemma run_Nil: "run [] d = d"
  by (simp add: run_def)

lemma run_Cons: "run (c # cs) d = run cs (step d c)"
  by (simp add: run_def)

lemma map_key_sql_update:
  "(\<And>r. k (f r) = k r) \<Longrightarrow> map k (sql_update P f rows) = map k rows"
  by (simp add: sql_update_def)

subsection \<open>The lookup counters\<close>

lemma lookup_count_none:
  "\<forall>l \<in> set (lookups d). l_user_id l \<noteq> k \<Longrightarrow> lookup_count k d = 0"
  by (simp add: lookup_count_def filter_empty_conv)

lemma lookup_inv_update_user:
  assumes "lookup_inv seen d"
  shows "lookup_inv (uid # seen) (step d (Update_user now uid un fn ln))"
proof (cases "sql_exists (\<lambda>u. user_id u = uid) (users d)")
  case True
  let ?set = "\<lambda>u. u\<lparr>last_seen := now, username := un, first_name := fn, last_name := ln\<rparr>"
  have ids: "map user_id (sql_update (\<lambda>u. user_id u = uid) ?set (users d)) = map user_id (users d)"
    by (rule map_key_sql_update) simp
  then have ids': "user_id ` set (sql_update (\<lambda>u. user_id u = uid) ?set (users d)) = user_id ` set (users d)"
    by (metis set_map)
  from True have "uid \<in> user_id ` set (users d)"
    by (simp add: sql_exists_key)
  with assms True ids' show ?thesis
    by (auto simp: lookup_inv_def step_simps lookup_count_def sql_update_def)
next
  case False
  then have "uid \<notin> user_id ` set (users d)"
    by (simp add: sql_exists_key)
  with assms have "lookup_count uid d = 0"
    by (intro lookup_count_none) (auto simp: lookup_inv_def)
  with assms False show ?thesis
    by (auto simp: lookup_inv_def step_simps lookup_count_def set_insort_key)
qed

lemma lookup_inv_save_lookup:
  assumes "lookup_inv seen d" and "uid \<in> set seen"
  shows "lookup_inv seen (step d (Save_lookup cur_ts today uid cmd q res))"
proof -
  let ?inc = "\<lambda>u. u\<lparr>total_lookups := total_lookups u + 1\<rparr>"
  have ids: "map user_id (sql_update (\<lambda>u. user_id u = uid) ?inc (users d)) = map user_id (users d)"
    by (rule map_key_sql_update) simp
  then have ids': "user_id ` set (sql_update (\<lambda>u. user_id u = uid) ?inc (users d)) = user_id ` set (users d)"
    by (metis set_map)
  from assms have "uid \<in> user_id ` set (users d)"
    by (auto simp: lookup_inv_def)
  with assms ids' show ?thesis
    by (auto simp: lookup_inv_def step_simps lookup_count_def sql_update_def)
qed

lemma lookup_inv_step:
  assumes "lookup_inv seen d" and "upserted_first seen (c # cs)"
  shows "\<exists>seen'. lookup_inv seen' (step d c) \<and> upserted_first seen' cs"
proof (cases c)
  case (Update_user now uid un fn ln)
  with assms(2) have "upserted_first (uid # seen) cs" by simp
  with lookup_inv_update_user [OF assms(1), of uid now un fn ln] Update_user
  show ?thesis by blast
next
  case (Save_lookup cur_ts today uid cmd q res)
  with assms(2) have "uid \<in> set seen" "upserted_first seen cs" by simp_all
  with lookup_inv_save_lookup [OF assms(1), of uid cur_ts today cmd q res] Save_lookup
  show ?thesis by blast
qed (use assms in \<open>auto simp: step_simps lookup_inv_def lookup_count_def\<close>)

lemma lookup_inv_run:
  "lookup_inv seen d \<Longrightarrow> upserted_first seen cs \<Longrightarrow> \<exists>seen'. lookup_inv seen' (run cs d)"
proof (induction cs arbitrary: seen d)
  case Nil
  then show ?case by (auto simp: run_Nil)
next
  case (Cons c cs)
  from lookup_inv_step [OF Cons.prems] obtain seen'
    where "lookup_inv seen' (step d c)" "upserted_first seen' cs" by blast
  from Cons.IH [OF this] show ?case by (simp add: run_Cons)
qed

lemma lookup_inv_empty: "lookup_inv [] empty_db"
  by (simp add: lookup_inv_def empty_db_def)

text \<open>C2. Start from the initialised empty database and make any sequence of calls in
  which every user id given to \<open>save_lookup\<close> was given to \<open>update_user\<close> before. Then
  in the database reached, every user's \<open>total_lookups\<close> is the number of \<open>lookups\<close>
  rows with that user id.\<close>

theorem total_lookups_counts_rows:
  "upserted_first [] cs \<Longrightarrow>
   \<forall>u \<in> set (users (run cs empty_db)).
     total_lookups u = lookup_count (user_id u) (run cs empty_db)"
  using lookup_inv_run [OF lookup_inv_empty, of cs] by (auto simp: lookup_inv_def)


theorem total_lookups_counts_rows_witness:
  "upserted_first [] example_calls \<and>
   map total_lookups (users (run example_calls empty_db)) = [0, 0, 1] \<and>
   map (\<lambda>u. lookup_count (user_id u) (run example_calls empty_db))
     (users (run example_calls empty_db)) = [0, 0, 1]"
proof -
  have h: "upserted_first [] example_calls"
    by (simp add: example_calls_def)
  have e: "run example_calls empty_db = example_db"
    by (simp add: example_db_def)
  show ?thesis
    using h total_lookups_counts_rows [OF h]
    by (simp add: e) (simp add: example_db_eq lookup_count_def)
qed

text \<open>Without the condition on the calls the counters can disagree: a lookup recorded for a
  user who is upserted only afterwards is never counted.\<close>

lemma total_lookups_unguarded:
  "map total_lookups (users (run
      [Save_lookup ''2024-05-01 08:00:00'' ''2024-05-01'' 5 ''phone'' ''+1'' JNull,
       Update_user ''2024-05-01T10:00:00'' 5 None None None] empty_db)) = [0] \<and>
   lookup_count 5 (run
      [Save_lookup ''2024-05-01 08:00:00'' ''2024-05-01'' 5 ''phone'' ''+1'' JNull,
       Update_user ''2024-05-01T10:00:00'' 5 None None None] empty_db) = 1"
  by (simp add: run_def step_simps empty_db_def sql_update_def sql_exists_def lookup_count_def)

subsection \<open>Key constraints are kept\<close>

lemma strict_insort_key:
  "sorted_wrt (<) (map k rows) \<Longrightarrow> \<not> sql_exists (\<lambda>r. k r = k x) rows \<Longrightarrow>
   sorted_wrt (<) (map k (insort_key k x rows))"
  for k :: "'r \<Rightarrow> int"
  by (induction rows) (auto simp: sql_exists_def set_insort_key)

lemma strict_sql_delete:
  "sorted_wrt (<) (map k rows) \<Longrightarrow> sorted_wrt (<) (map k (sql_delete P rows))"
  for k :: "'r \<Rightarrow> int"
  by (simp add: sql_delete_def sorted_wrt_map sorted_wrt_filter)

lemma primary_keys_step:
  assumes pk: "primary_keys d"
  shows "primary_keys (step d c)"
proof (cases c)
  case (Update_user now uid un fn ln)
  with pk show ?thesis
    by (simp add: primary_keys_def step_simps map_key_sql_update strict_insort_key)
next
  case (Add_admin cur_ts uid who)
  with pk show ?thesis
    by (simp add: primary_keys_def step_simps strict_insort_key)
next
  case (Remove_admin uid)
  with pk show ?thesis
    by (simp add: primary_keys_def step_simps strict_sql_delete)
next
  case (Ban_user cur_ts uid rsn who)
  with pk show ?thesis
    by (simp add: primary_keys_def step_simps strict_insort_key)
next
  case (Unban_user uid)
  with pk show ?thesis
    by (simp add: primary_keys_def step_simps strict_sql_delete)
next
  case (Save_lookup cur_ts today uid cmd q res)
  let ?D = "\<lambda>r. date r = today \<and> d_command r = cmd"
  have keys: "map (\<lambda>r. (date r, d_command r))
      (sql_update ?D (\<lambda>r. r\<lparr>d_count := d_count r + 1\<rparr>) (daily_stats d)) =
      map (\<lambda>r. (date r, d_command r)) (daily_stats d)"
    by (rule map_key_sql_update) simp
  have new: "\<not> sql_exists ?D (daily_stats d) \<Longrightarrow>
      (today, cmd) \<notin> (\<lambda>r. (date r, d_command r)) ` set (daily_stats d)"
    by (auto simp: sql_exists_def list_ex_iff)
  from pk have ids: "\<forall>l \<in> set (lookups d). l_id l < lookups_seq d + 1"
    by (auto simp: primary_keys_def list_all_iff)
  from pk ids new Save_lookup show ?thesis
    by (auto simp: primary_keys_def step_simps map_key_sql_update keys
        sorted_wrt_append list_all_iff)
qed (use pk in \<open>simp_all add: step_simps\<close>)

lemma primary_keys_run: "primary_keys d \<Longrightarrow> primary_keys (run cs d)"
  by (induction cs arbitrary: d) (simp_all add: run_Nil run_Cons primary_keys_step)

lemma primary_keys_empty_db: "primary_keys empty_db"
  by (simp add: primary_keys_def empty_db_def)

subsection \<open>The leaderboard\<close>

lemma insort_key_ties:
  fixes f :: "'r \<Rightarrow> int" and k :: "'r \<Rightarrow> int"
  assumes "sorted_wrt (\<lambda>a b. f a < f b \<or> (f a = f b \<and> k b < k a)) zs"
    and "\<forall>z \<in> set zs. k z < k y"
  shows "sorted_wrt (\<lambda>a b. f a < f b \<or> (f a = f b \<and> k b < k a)) (insort_key f y zs)"
  using assms by (induction zs) (auto simp: set_insort_key)

lemma sort_key_ties:
  fixes f :: "'r \<Rightarrow> int" and k :: "'r \<Rightarrow> int"
  assumes "sorted_wrt (\<lambda>a b. k b < k a) ys"
  shows "sorted_wrt (\<lambda>a b. f a < f b \<or> (f a = f b \<and> k b < k a)) (sort_key f ys)"
  using assms
proof (induction ys)
  case Nil
  then show ?case by simp
next
  case (Cons y ys)
  then have "sorted_wrt (\<lambda>a b. f a < f b \<or> (f a = f b \<and> k b < k a)) (sort_key f ys)"
    and "\<forall>z \<in> set (sort_key f ys). k z < k y"
    by simp_all
  then show ?case
    by (simp add: insort_key_ties)
qed

lemma order_by_desc_ties:
  fixes f :: "'r \<Rightarrow> int" and k :: "'r \<Rightarrow> int"
  assumes "sorted_wrt (<) (map k rows)"
  shows "sorted_wrt (\<lambda>a b. f b < f a \<or> (f a = f b \<and> k a < k b)) (order_by_desc f rows)"
proof -
  from assms have "sorted_wrt (\<lambda>a b. k b < k a) (rev rows)"
    by (simp add: sorted_wrt_map sorted_wrt_rev)
  then have "sorted_wrt (\<lambda>a b. f a < f b \<or> (f a = f b \<and> k b < k a)) (sort_key f (rev rows))"
    by (rule sort_key_ties)
  then have "sorted_wrt (\<lambda>b a. f a < f b \<or> (f a = f b \<and> k b < k a)) (order_by_desc f rows)"
    by (simp add: order_by_desc_def sorted_wrt_rev)
  then show ?thesis
    by (rule sorted_wrt_mono_rel [rotated]) auto
qed

lemma length_order_by_desc: "length (order_by_desc f rows) = length rows"
  by (simp add: order_by_desc_def)

lemma length_sql_limit:
  "length (sql_limit n rows) = (if n < 0 then length rows else min (nat n) (length rows))"
  by (simp add: sql_limit_def min.commute)

lemma mset_order_by_desc: "mset (order_by_desc f rows) = mset rows"
  by (simp add: order_by_desc_def)

text \<open>C8 (amended). \<open>get_leaderboard\<close> returns without an error a list of
  \<open>(user_id, total_lookups)\<close> pairs: the first rows of a list \<open>full\<close> that has one pair
  for every user row and is ordered by descending \<open>total_lookups\<close>. For a limit that is
  not negative these are at most \<open>limit\<close> pairs (as many as there are users, if fewer);
  for a negative limit it is all of \<open>full\<close>. The statement names no second sort key and
  pairs with equal \<open>total_lookups\<close> come out in the scan order of the table: on a database
  that satisfies its key constraints, by ascending \<open>user_id\<close>.\<close>

theorem get_leaderboard_order:
  "\<exists>rows full. get_leaderboard limit d = Inr rows \<and>
     mset full = mset (map (\<lambda>u. (user_id u, total_lookups u)) (users d)) \<and>
     rows = (if limit < 0 then full else take (nat limit) full) \<and>
     (0 \<le> limit \<longrightarrow> int (length rows) \<le> limit) \<and>
     length rows = (if limit < 0 then length (users d) else min (nat limit) (length (users d))) \<and>
     sorted_wrt (\<lambda>a b. snd b \<le> snd a) full \<and>
     sorted_wrt (\<lambda>a b. snd b \<le> snd a) rows \<and>
     (primary_keys d \<longrightarrow> sorted_wrt ranks_before full \<and> sorted_wrt ranks_before rows)"
proof -
  let ?pair = "\<lambda>u. (user_id u, total_lookups u)"
  let ?ordered = "order_by_desc total_lookups (users d)"
  let ?full = "map ?pair ?ordered"
  let ?rows = "map ?pair (sql_limit limit ?ordered)"
  have res: "get_leaderboard limit d = Inr ?rows"
    by (rule get_leaderboard_Inr)
  have perm: "mset ?full = mset (map ?pair (users d))"
    by (simp add: mset_order_by_desc)
  have rows: "?rows = (if limit < 0 then ?full else take (nat limit) ?full)"
    by (simp add: sql_limit_def take_map)
  have len: "length ?rows = (if limit < 0 then length (users d) else min (nat limit) (length (users d)))"
    by (simp add: length_sql_limit length_order_by_desc)
  have "sorted (map total_lookups (sort_key total_lookups (rev (users d))))"
    by (rule sorted_sort_key)
  then have "sorted_wrt (\<lambda>a b. total_lookups b \<le> total_lookups a) ?ordered"
    by (simp add: order_by_desc_def sorted_wrt_rev sorted_wrt_map)
  then have desc_full: "sorted_wrt (\<lambda>a b. snd b \<le> snd a) ?full"
    by (simp add: sorted_wrt_map)
  then have desc_rows: "sorted_wrt (\<lambda>a b. snd b \<le> snd a) ?rows"
    unfolding rows by (simp add: sorted_wrt_take)
  have ties: "sorted_wrt ranks_before ?full \<and> sorted_wrt ranks_before ?rows" if "primary_keys d"
  proof -
    from that have "sorted_wrt (<) (map user_id (users d))"
      by (simp add: primary_keys_def)
    then have "sorted_wrt (\<lambda>a b. total_lookups b < total_lookups a \<or>
          (total_lookups a = total_lookups b \<and> user_id a < user_id b)) ?ordered"
      by (rule order_by_desc_ties)
    then have "sorted_wrt ranks_before ?full"
      by (simp add: sorted_wrt_map ranks_before_def)
    then show ?thesis
      unfolding rows by (simp add: sorted_wrt_take)
  qed
  from len have bound: "0 \<le> limit \<longrightarrow> int (length ?rows) \<le> limit"
    by auto
  from res perm rows bound len desc_full desc_rows ties show ?thesis
    by blast
qed

theorem get_leaderboard_order_witness:
  "primary_keys example_db \<and>
   get_leaderboard 1 example_db = Inr [(9, 1)] \<and>
   get_leaderboard 5 example_db = Inr [(9, 1), (3, 0), (7, 0)]"
  using primary_keys_example_db get_leaderboard_order [of 1 example_db]
    get_leaderboard_order [of 5 example_db]
  by (simp add: get_leaderboard_Inr example_db_eq order_by_desc_def sql_limit_def)

text \<open>The claim as it was stated, ``at most \<open>limit\<close> pairs for every limit'', fails for
  a negative limit: the example database has three users and \<open>LIMIT -1\<close> returns all.\<close>

theorem get_leaderboard_negative_limit:
  "get_leaderboard (- 1) example_db = Inr [(9, 1), (3, 0), (7, 0)] \<and>
   \<not> int (length [(9 :: int, 1 :: int), (3, 0), (7, 0)]) \<le> - 1"
  by (simp add: get_leaderboard_Inr example_db_eq order_by_desc_def sql_limit_def)

subsection \<open>Daily statistics\<close>

text \<open>C6 (code defect). The statement of \<open>get_daily_stats\<close> has no placeholder, since its
  only \<open>?\<close> stands inside a double-quoted token, but the call binds one parameter: for
  every number of days and every database the call raises, and returns no rows at all.\<close>

theorem get_daily_stats_raises:
  "get_daily_stats dqs sqlite_date days d =
     Inl (if dqs then ProgrammingError else OperationalError)"
  by (simp add: get_daily_stats_def execute_def get_daily_stats_sql_def)

end
